theory Spec2Isabelle
  imports Main "HOL-Library.Word" "HOL-Library.Signed_Division"
begin

unbundle bit_operations_syntax

section \<open>pexpert/ppc/pe_clock_speed.c: bus and processor clock calibration\<close>

text \<open>
  The file is compiled for 32-bit PowerPC: \<^verbatim>\<open>int\<close>, \<^verbatim>\<open>long\<close>, \<^verbatim>\<open>unsigned int\<close> and
  \<^verbatim>\<open>unsigned long\<close> are 32 bits wide, \<^verbatim>\<open>unsigned long long\<close> is 64 bits wide (the
  source says "Using 64 bit math" where it leaves \<^verbatim>\<open>long\<close>).  A 32-bit value is a
  \<open>32 word\<close> whatever its signedness; the signedness is in the operation, as it is in
  the machine: \<open>div\<close> and \<open><\<close> are the unsigned ones, \<open>long_div\<close> and \<open><s\<close> the signed
  ones.  Arithmetic wraps around modulo the width, which is what the PowerPC
  instructions do; converting a 64-bit value to \<^verbatim>\<open>long\<close> keeps its low 32 bits.
\<close>

type_synonym long = "32 word"
type_synonym ulong = "32 word"
type_synonym uint = "32 word"
type_synonym ulonglong = "64 word"

text \<open>Division of \<^verbatim>\<open>long\<close> by \<^verbatim>\<open>long\<close> truncates towards zero.\<close>

definition long_div :: "long \<Rightarrow> long \<Rightarrow> long" where
  "long_div a b = word_of_int (sint a sdiv sint b)"

text \<open>\<^verbatim>\<open>#define kMaxFreqDiff (30000)\<close>\<close>

definition kMaxFreqDiff :: long where
  "kMaxFreqDiff = 30000"

text \<open>
  \<^verbatim>\<open>struct clock_test_data\<close>: the address handed to the measuring routine and the two
  tick counts it writes back.
\<close>

record clock_test_data =
  via_addr :: uint
  via_ticks :: uint
  dec_ticks :: uint

text \<open>
  \<^verbatim>\<open>pe_run_clock_test\<close> is an external assembly routine.  It is a parameter of the
  model: the tick counts \<open>(via_ticks, dec_ticks)\<close> that its \<open>k\<close>-th call (counted from 0)
  stores for the given \<open>via_addr\<close>.
\<close>

type_synonym run_clock_test = "nat \<Rightarrow> uint \<Rightarrow> uint \<times> uint"

text \<open>\<^verbatim>\<open>static long bus_freq_num, bus_freq_den, cpu_pll;\<close>\<close>

record clock_globals =
  bus_freq_num :: long
  bus_freq_den :: long
  cpu_pll :: long

text \<open>
  The only way the C code can fail is an integer division by zero (lines 68, 69, 113
  and 118).
\<close>

datatype fault = Divide_By_Zero

subsection \<open>One pass of the loop body\<close>

text \<open>\<^verbatim>\<open>if (diff < 0) diff = -diff;\<close>\<close>

definition abs_diff :: "long \<Rightarrow> long" where
  "abs_diff diff = (if diff <s 0 then - diff else diff)"

text \<open>
  Lines 113-114: the unsigned quotient \<^verbatim>\<open>10000000 / dec_ticks\<close>, then halved and rounded
  up.
\<close>

definition pll_mode :: "uint \<Rightarrow> long" where
  "pll_mode dec = (let pll = 10000000 div dec in long_div pll 2 + (pll AND 1))"

text \<open>Lines 118-119: 64-bit product and quotient, shifted, then stored in a \<^verbatim>\<open>long\<close>.\<close>

definition raw_bus_speed :: "uint \<Rightarrow> uint \<Rightarrow> long" where
  "raw_bus_speed dec via =
     ucast (drop_bit 22 (((0xBF401675E5D :: ulonglong) * ucast dec) div ucast via))"

text \<open>Lines 129-132: the test that leaves the \<^verbatim>\<open>for\<close> loop at a table entry.\<close>

definition speed_close :: "long \<Rightarrow> ulong \<times> ulong \<Rightarrow> bool" where
  "speed_close raw_bus_freq entry =
     (case entry of (num, den) \<Rightarrow>
        abs_diff (num - raw_bus_freq * den) <s kMaxFreqDiff * den)"

text \<open>
  Lines 126-134: the table \<^verbatim>\<open>speed_list\<close> holds \<^verbatim>\<open>num_speeds\<close> pairs (numerator,
  denominator); it is a list of pairs here.  The result is the entry at which the loop
  breaks, or \<open>None\<close> when \<^verbatim>\<open>cnt\<close> reaches \<^verbatim>\<open>num_speeds\<close>.
\<close>

fun speed_search :: "long \<Rightarrow> (ulong \<times> ulong) list \<Rightarrow> (ulong \<times> ulong) option" where
  "speed_search raw_bus_freq [] = None"
| "speed_search raw_bus_freq (entry # rest) =
     (if speed_close raw_bus_freq entry then Some entry
      else speed_search raw_bus_freq rest)"

text \<open>Line 137 and line 149: the two roundings.\<close>

definition half_mhz :: "long \<Rightarrow> long" where
  "half_mhz raw_bus_freq = long_div (raw_bus_freq + 250000) 500000 * 500000"

definition third_mhz :: "long \<Rightarrow> long" where
  "third_mhz raw_bus_freq = long_div (raw_bus_freq * 3 + 25000000) 50000000 * 50000000"

text \<open>Lines 137-162: what the body does once the table has no entry close enough.\<close>

definition fallback :: "long \<Rightarrow> long \<times> long" where
  "fallback raw_bus_freq =
     (if abs_diff (half_mhz raw_bus_freq - raw_bus_freq) <s kMaxFreqDiff
      then (half_mhz raw_bus_freq, 1)
      else if abs_diff (third_mhz raw_bus_freq - raw_bus_freq * 3) <s kMaxFreqDiff * 3
      then (third_mhz raw_bus_freq, 3)
      else (raw_bus_freq, 1))"

text \<open>Lines 126-162: the pair left in \<^verbatim>\<open>bus_freq_num\<close> and \<^verbatim>\<open>bus_freq_den\<close>.\<close>

definition best_fit :: "long \<Rightarrow> (ulong \<times> ulong) list \<Rightarrow> long \<times> long" where
  "best_fit raw_bus_freq speed_list =
     (case speed_search raw_bus_freq speed_list of
        Some entry \<Rightarrow> entry
      | None \<Rightarrow> fallback raw_bus_freq)"

text \<open>
  Lines 113-162, one pass.  Every global is assigned before the pass ends and none is
  read before it is assigned, so the pass is a function of the sample and the table.
  The local \<^verbatim>\<open>raw_cpu_freq\<close> (line 122) is never read and is left out.
\<close>

definition clock_test_pass :: "clock_test_data \<Rightarrow> (ulong \<times> ulong) list \<Rightarrow> fault + clock_globals" where
  "clock_test_pass d speed_list =
     (if dec_ticks d = 0 then Inl Divide_By_Zero
      else if via_ticks d = 0 then Inl Divide_By_Zero
      else
        let raw_bus_freq = raw_bus_speed (dec_ticks d) (via_ticks d);
            (num, den) = best_fit raw_bus_freq speed_list
        in Inr \<lparr>bus_freq_num = num, bus_freq_den = den, cpu_pll = pll_mode (dec_ticks d)\<rparr>)"

subsection \<open>The loop of \<^verbatim>\<open>pe_do_clock_test\<close>\<close>

text \<open>
  Lines 102 and 110: the structure after the \<open>k\<close>-th call of \<^verbatim>\<open>pe_run_clock_test\<close>.
\<close>

definition call_test :: "run_clock_test \<Rightarrow> uint \<Rightarrow> nat \<Rightarrow> clock_test_data" where
  "call_test run addr k =
     \<lparr>via_addr = addr, via_ticks = fst (run k addr), dec_ticks = snd (run k addr)\<rparr>"

text \<open>
  \<^verbatim>\<open>do { last_bus_freq = bus_freq_num; ... } while ((bus_freq_num != last_bus_freq) && tries--);\<close>
  Every \<^verbatim>\<open>continue\<close> of the body jumps to this test.  \<open>tries\<close> is the value of the local
  \<^verbatim>\<open>tries\<close> before the test, \<open>calls\<close> the number of calls of \<^verbatim>\<open>pe_run_clock_test\<close> made
  so far, \<open>g\<close> the globals on entry to the body.  The result is the globals on exit
  together with the number of calls made.
\<close>

fun clock_test_loop ::
  "run_clock_test \<Rightarrow> uint \<Rightarrow> (ulong \<times> ulong) list \<Rightarrow> nat \<Rightarrow> nat \<Rightarrow> clock_globals
     \<Rightarrow> fault + (clock_globals \<times> nat)" where
  "clock_test_loop run addr speed_list tries calls g =
     (let last_bus_freq = bus_freq_num g
      in case clock_test_pass (call_test run addr calls) speed_list of
           Inl e \<Rightarrow> Inl e
         | Inr g' \<Rightarrow>
             if bus_freq_num g' \<noteq> last_bus_freq \<and> tries \<noteq> 0
             then clock_test_loop run addr speed_list (tries - 1) (Suc calls) g'
             else Inr (g', Suc calls))"

declare clock_test_loop.simps [simp del]

text \<open>
  \<^verbatim>\<open>pe_do_clock_test\<close>: \<^verbatim>\<open>tries = 10\<close>, \<^verbatim>\<open>bus_freq_num = 0\<close>, then the loop.  The statics
  \<^verbatim>\<open>bus_freq_den\<close> and \<^verbatim>\<open>cpu_pll\<close> keep what they held; \<open>g0\<close> is their content on entry.
\<close>

definition pe_do_clock_test ::
  "run_clock_test \<Rightarrow> clock_globals \<Rightarrow> uint \<Rightarrow> (ulong \<times> ulong) list
     \<Rightarrow> fault + (clock_globals \<times> nat)" where
  "pe_do_clock_test run g0 addr speed_list =
     clock_test_loop run addr speed_list 10 0 (g0\<lparr>bus_freq_num := 0\<rparr>)"

subsection \<open>\<^verbatim>\<open>PE_Determine_Clock_Speeds\<close>\<close>

text \<open>
  Modelled from the spec: the type of \<^verbatim>\<open>gPEClockFrequencyInfo\<close> is declared in
  \<^verbatim>\<open>pexpert/pexpert.h\<close>, which is not among the sources.  The record has the nine
  fields that \<^verbatim>\<open>PE_Determine_Clock_Speeds\<close> assigns (the bus, CPU and decrementer rates
  in Hz and three rational pairs), each an \<^verbatim>\<open>unsigned long\<close> like the locals stored
  into them.
\<close>

record clock_frequency_info =
  bus_clock_rate_hz :: ulong
  cpu_clock_rate_hz :: ulong
  dec_clock_rate_hz :: ulong
  bus_clock_rate_num :: ulong
  bus_clock_rate_den :: ulong
  bus_to_cpu_rate_num :: ulong
  bus_to_cpu_rate_den :: ulong
  bus_to_dec_rate_num :: ulong
  bus_to_dec_rate_den :: ulong

text \<open>
  Lines 68-87.  Line 68 divides \<^verbatim>\<open>long\<close> by \<^verbatim>\<open>long\<close>.  Line 69 widens \<^verbatim>\<open>bus_freq_num\<close>,
  \<^verbatim>\<open>cpu_pll\<close> and the 32-bit product \<^verbatim>\<open>bus_freq_den * 2\<close> to 64 bits (with their sign) and
  divides unsigned; line 70 keeps the low 32 bits.  Line 87 divides an
  \<^verbatim>\<open>unsigned long\<close> by 4.
\<close>

definition report_clock_speeds :: "clock_globals \<Rightarrow> fault + clock_frequency_info" where
  "report_clock_speeds g =
     (if bus_freq_den g = 0 then Inl Divide_By_Zero
      else if bus_freq_den g * 2 = 0 then Inl Divide_By_Zero
      else
        let tmp_bus_speed = long_div (bus_freq_num g) (bus_freq_den g);
            tmp = ((scast (bus_freq_num g) :: ulonglong) * scast (cpu_pll g))
                    div scast (bus_freq_den g * 2);
            tmp_cpu_speed = (ucast tmp :: ulong)
        in Inr \<lparr>bus_clock_rate_hz = tmp_bus_speed,
                cpu_clock_rate_hz = tmp_cpu_speed,
                dec_clock_rate_hz = tmp_bus_speed div 4,
                bus_clock_rate_num = bus_freq_num g,
                bus_clock_rate_den = bus_freq_den g,
                bus_to_cpu_rate_num = cpu_pll g,
                bus_to_cpu_rate_den = 2,
                bus_to_dec_rate_num = 1,
                bus_to_dec_rate_den = 4\<rparr>)"

text \<open>
  \<^verbatim>\<open>PE_Determine_Clock_Speeds\<close>: the measurement, then the report.  The result is the
  content of \<^verbatim>\<open>gPEClockFrequencyInfo\<close> on return.  Switching the interrupts off and on
  (\<^verbatim>\<open>ml_set_interrupts_enabled\<close>) and the final \<^verbatim>\<open>PE_call_timebase_callback\<close> are calls
  of external routines that do not touch the values modelled here.
\<close>

definition PE_Determine_Clock_Speeds ::
  "run_clock_test \<Rightarrow> clock_globals \<Rightarrow> uint \<Rightarrow> (ulong \<times> ulong) list
     \<Rightarrow> fault + clock_frequency_info" where
  "PE_Determine_Clock_Speeds run g0 addr speed_list =
     (case pe_do_clock_test run g0 addr speed_list of
        Inl e \<Rightarrow> Inl e
      | Inr (g, calls) \<Rightarrow> report_clock_speeds g)"

subsection \<open>Notions used to state the properties\<close>

text \<open>
  The numerator that the pass on the \<open>k\<close>-th sample leaves in \<^verbatim>\<open>bus_freq_num\<close>, and the
  value of \<^verbatim>\<open>last_bus_freq\<close> during that pass: 0 for the first pass, the numerator of
  the pass before otherwise.
\<close>

definition pass_num :: "run_clock_test \<Rightarrow> uint \<Rightarrow> (ulong \<times> ulong) list \<Rightarrow> nat \<Rightarrow> long" where
  "pass_num run addr speed_list k =
     (case clock_test_pass (call_test run addr k) speed_list of
        Inl e \<Rightarrow> 0
      | Inr g \<Rightarrow> bus_freq_num g)"

definition pass_den :: "run_clock_test \<Rightarrow> uint \<Rightarrow> (ulong \<times> ulong) list \<Rightarrow> nat \<Rightarrow> long" where
  "pass_den run addr speed_list k =
     (case clock_test_pass (call_test run addr k) speed_list of
        Inl e \<Rightarrow> 0
      | Inr g \<Rightarrow> bus_freq_den g)"

definition last_num :: "run_clock_test \<Rightarrow> uint \<Rightarrow> (ulong \<times> ulong) list \<Rightarrow> nat \<Rightarrow> long" where
  "last_num run addr speed_list k =
     (case k of 0 \<Rightarrow> 0 | Suc j \<Rightarrow> pass_num run addr speed_list j)"

text \<open>
  The specification speaks of "the nearest multiple" of 500,000 and of 50,000,000.
  Following its words, on the integers: the multiple of \<open>c\<close> nearest to \<open>v\<close> (the upper
  one when two are equally near).
\<close>

definition nearest_multiple :: "int \<Rightarrow> int \<Rightarrow> int" where
  "nearest_multiple c v = (v + c div 2) div c * c"

text \<open>
  The specification's tolerance test of a table entry, on the integers:
  \<open>|num - rawBusFreq * den| < 30000 * den\<close>.
\<close>

definition within_tolerance :: "int \<Rightarrow> int \<times> int \<Rightarrow> bool" where
  "within_tolerance raw entry = (case entry of (num, den) \<Rightarrow> \<bar>num - raw * den\<bar> < 30000 * den)"

text \<open>
  A table entry as a pair of integers (its entries are \<^verbatim>\<open>unsigned long\<close>), and the
  condition under which the code computes the tolerance test of an entry exactly:
  storing numerator and denominator in a \<^verbatim>\<open>long\<close> keeps their values, and none of
  \<^verbatim>\<open>raw_bus_freq * bus_freq_den\<close>, the difference of line 129, its negation and
  \<^verbatim>\<open>kMaxFreqDiff * bus_freq_den\<close> leaves the range of \<^verbatim>\<open>long\<close>.
\<close>

definition entry_value :: "ulong \<times> ulong \<Rightarrow> int \<times> int" where
  "entry_value entry = (case entry of (num, den) \<Rightarrow> (uint num, uint den))"

definition test_exact :: "long \<Rightarrow> ulong \<times> ulong \<Rightarrow> bool" where
  "test_exact raw_bus_freq entry =
     (case entry of (num, den) \<Rightarrow>
        uint num < 2147483648 \<and> uint den < 2147483648 \<and>
        - 2147483648 \<le> sint raw_bus_freq * uint den \<and>
        sint raw_bus_freq * uint den < 2147483648 \<and>
        - 2147483648 < uint num - sint raw_bus_freq * uint den \<and>
        uint num - sint raw_bus_freq * uint den < 2147483648 \<and>
        30000 * uint den < 2147483648)"

subsection \<open>Measurements used as examples\<close>

text \<open>
  A measurement whose first call counts 31334 VIA ticks and 1,000,000 decrementer
  ticks and whose later calls count a quarter more ticks of both kinds.
\<close>

definition changing_pll_test :: run_clock_test where
  "changing_pll_test k addr = (if k = 0 then (31334, 1000000) else (39168, 1250000))"

text \<open>A first call that measures a third of the frequency that the later calls measure.\<close>

definition drifting_test :: run_clock_test where
  "drifting_test k addr = (if k = 0 then (94003, 1000000) else (31334, 1000000))"

text \<open>A measurement whose VIA tick count grows by 37 with every call.\<close>

definition unsteady_test :: run_clock_test where
  "unsteady_test k addr = (31000 + 37 * of_nat k, 1000000)"

text \<open>Two single samples whose raw bus frequency does not fit in 31 bits.\<close>

definition sample_1360 :: clock_test_data where
  "sample_1360 = \<lparr>via_addr = 0, via_ticks = 1, dec_ticks = 1360\<rparr>"

definition sample_2635 :: clock_test_data where
  "sample_2635 = \<lparr>via_addr = 0, via_ticks = 2, dec_ticks = 2635\<rparr>"

text \<open>Single samples, each with 1,000,000 decrementer ticks.\<close>

definition sample_31334 :: clock_test_data where
  "sample_31334 = \<lparr>via_addr = 0, via_ticks = 31334, dec_ticks = 1000000\<rparr>"

definition sample_94003 :: clock_test_data where
  "sample_94003 = \<lparr>via_addr = 0, via_ticks = 94003, dec_ticks = 1000000\<rparr>"

definition sample_31000 :: clock_test_data where
  "sample_31000 = \<lparr>via_addr = 0, via_ticks = 31000, dec_ticks = 1000000\<rparr>"

text \<open>A sample whose raw bus frequency is about 733.33 MHz.\<close>

definition sample_6787 :: clock_test_data where
  "sample_6787 = \<lparr>via_addr = 0, via_ticks = 29, dec_ticks = 6787\<rparr>"

text \<open>A sample whose raw bus frequency is about 1465 MHz.\<close>

definition sample_7013 :: clock_test_data where
  "sample_7013 = \<lparr>via_addr = 0, via_ticks = 15, dec_ticks = 7013\<rparr>"

text \<open>A measurement that counts the same ticks at every call.\<close>

definition constant_test :: "uint \<Rightarrow> uint \<Rightarrow> run_clock_test" where
  "constant_test via dec k addr = (via, dec)"

definition zero_globals :: clock_globals where
  "zero_globals = \<lparr>bus_freq_num = 0, bus_freq_den = 0, cpu_pll = 0\<rparr>"

section \<open>Properties\<close>

subsection \<open>Evaluation on concrete samples\<close>

lemmas clock_eval =
  raw_bus_speed_def pll_mode_def long_div_def best_fit_def speed_close_def abs_diff_def
  kMaxFreqDiff_def fallback_def half_mhz_def third_mhz_def signed_divide_int_def
  word_sless_alt clock_test_pass_def call_test_def report_clock_speeds_def

lemmas run_eval =
  PE_Determine_Clock_Speeds_def pe_do_clock_test_def clock_test_loop.simps

subsection \<open>One pass and the loop\<close>

lemma clock_test_pass_Inr:
  assumes "dec_ticks d \<noteq> 0" and "via_ticks d \<noteq> 0"
  shows "clock_test_pass d speed_list =
           Inr \<lparr>bus_freq_num = fst (best_fit (raw_bus_speed (dec_ticks d) (via_ticks d)) speed_list),
                bus_freq_den = snd (best_fit (raw_bus_speed (dec_ticks d) (via_ticks d)) speed_list),
                cpu_pll = pll_mode (dec_ticks d)\<rparr>"
  using assms by (simp add: clock_test_pass_def split_beta Let_def)

lemma clock_test_pass_InrD:
  assumes "clock_test_pass d speed_list = Inr g"
  shows "dec_ticks d \<noteq> 0 \<and> via_ticks d \<noteq> 0 \<and>
         g = \<lparr>bus_freq_num = fst (best_fit (raw_bus_speed (dec_ticks d) (via_ticks d)) speed_list),
                bus_freq_den = snd (best_fit (raw_bus_speed (dec_ticks d) (via_ticks d)) speed_list),
                cpu_pll = pll_mode (dec_ticks d)\<rparr>"
  using assms by (auto simp add: clock_test_pass_def split_beta Let_def split: if_splits)

lemma pass_num_Inr: "clock_test_pass (call_test run addr k) speed_list = Inr g \<Longrightarrow>
   pass_num run addr speed_list k = bus_freq_num g"
  by (simp add: pass_num_def)

lemma last_num_Suc: "last_num run addr speed_list (Suc k) = pass_num run addr speed_list k"
  by (simp add: last_num_def)

lemma last_num_0: "last_num run addr speed_list 0 = 0"
  by (simp add: last_num_def)

lemma clock_test_loop_Inr:
  assumes "clock_test_loop run addr speed_list tries calls g = Inr (g', n)"
    and "bus_freq_num g = last_num run addr speed_list calls"
  shows "calls < n \<and> n \<le> calls + tries + 1 \<and>
         clock_test_pass (call_test run addr (n - 1)) speed_list = Inr g' \<and>
         (\<forall>k. calls \<le> k \<and> k < n - 1 \<longrightarrow>
              pass_num run addr speed_list k \<noteq> last_num run addr speed_list k) \<and>
         (n < calls + tries + 1 \<longrightarrow>
              pass_num run addr speed_list (n - 1) = last_num run addr speed_list (n - 1))"
  using assms
proof (induction tries arbitrary: calls g)
  case 0
  then show ?case
    by (auto simp add: clock_test_loop.simps [of _ _ _ 0] split: sum.splits)
next
  case (Suc tries)
  from Suc.prems(1) obtain g1 where
    pass: "clock_test_pass (call_test run addr calls) speed_list = Inr g1"
    by (auto simp add: clock_test_loop.simps [of _ _ _ "Suc tries"] split: sum.splits)
  have num1: "pass_num run addr speed_list calls = bus_freq_num g1"
    using pass by (rule pass_num_Inr)
  show ?case
  proof (cases "bus_freq_num g1 = bus_freq_num g")
    case True
    with Suc.prems pass have "g' = g1" and "n = Suc calls"
      by (simp_all add: clock_test_loop.simps [of _ _ _ "Suc tries"])
    with pass num1 True Suc.prems(2) show ?thesis by auto
  next
    case False
    with Suc.prems(1) pass have
      rec: "clock_test_loop run addr speed_list tries (Suc calls) g1 = Inr (g', n)"
      by (simp add: clock_test_loop.simps [of _ _ _ "Suc tries"])
    have inv: "bus_freq_num g1 = last_num run addr speed_list (Suc calls)"
      using num1 by (simp add: last_num_Suc)
    note ih = Suc.IH [OF rec inv]
    have diff: "pass_num run addr speed_list calls \<noteq> last_num run addr speed_list calls"
      using False num1 Suc.prems(2) by simp
    have "\<forall>k. calls \<le> k \<and> k < n - 1 \<longrightarrow>
              pass_num run addr speed_list k \<noteq> last_num run addr speed_list k"
    proof (intro allI impI)
      fix k assume k: "calls \<le> k \<and> k < n - 1"
      show "pass_num run addr speed_list k \<noteq> last_num run addr speed_list k"
      proof (cases "k = calls")
        case True
        with diff show ?thesis by simp
      next
        case False
        with k have "Suc calls \<le> k \<and> k < n - 1" by simp
        with ih show ?thesis by blast
      qed
    qed
    with ih show ?thesis by simp
  qed
qed

lemma clock_test_loop_total:
  assumes "\<forall>k. calls \<le> k \<and> k \<le> calls + tries \<longrightarrow> fst (run k addr) \<noteq> 0 \<and> snd (run k addr) \<noteq> 0"
  shows "\<exists>g' n. clock_test_loop run addr speed_list tries calls g = Inr (g', n)"
  using assms
proof (induction tries arbitrary: calls g)
  case 0
  then have "dec_ticks (call_test run addr calls) \<noteq> 0" "via_ticks (call_test run addr calls) \<noteq> 0"
    by (simp_all add: call_test_def)
  then show ?case
    by (simp add: clock_test_loop.simps [of _ _ _ 0] clock_test_pass_Inr)
next
  case (Suc tries)
  then have nz: "dec_ticks (call_test run addr calls) \<noteq> 0" "via_ticks (call_test run addr calls) \<noteq> 0"
    by (simp_all add: call_test_def)
  have "\<forall>k. Suc calls \<le> k \<and> k \<le> Suc calls + tries \<longrightarrow> fst (run k addr) \<noteq> 0 \<and> snd (run k addr) \<noteq> 0"
    using Suc.prems by simp
  from Suc.IH [OF this] show ?case
    by (simp add: clock_test_loop.simps [of _ _ _ "Suc tries"] clock_test_pass_Inr [OF nz])
qed

lemma pe_do_clock_test_Inr:
  assumes "pe_do_clock_test run g0 addr speed_list = Inr (g, n)"
  shows "0 < n \<and> n \<le> 11 \<and>
         clock_test_pass (call_test run addr (n - 1)) speed_list = Inr g \<and>
         (\<forall>k<n - 1. pass_num run addr speed_list k \<noteq> last_num run addr speed_list k) \<and>
         (n < 11 \<longrightarrow>
              pass_num run addr speed_list (n - 1) = last_num run addr speed_list (n - 1))"
proof -
  have "bus_freq_num (g0\<lparr>bus_freq_num := 0\<rparr>) = last_num run addr speed_list 0"
    by (simp add: last_num_0)
  from clock_test_loop_Inr [OF assms [unfolded pe_do_clock_test_def] this]
  show ?thesis by simp
qed

lemma pe_do_clock_test_total:
  assumes "\<forall>k<11. fst (run k addr) \<noteq> 0 \<and> snd (run k addr) \<noteq> 0"
  shows "\<exists>g n. pe_do_clock_test run g0 addr speed_list = Inr (g, n)"
  unfolding pe_do_clock_test_def
  by (rule clock_test_loop_total) (use assms in simp)

subsection \<open>The stopping test of the loop\<close>

text \<open>
  Claim C1 says that the loop compares the numerator and the denominator of this pass
  with those of the pass before and stops early exactly when both are equal.  The
  \<^verbatim>\<open>while\<close> test reads \<^verbatim>\<open>bus_freq_num != last_bus_freq\<close> only.  With \<open>drifting_test\<close> the
  first pass ends with 100000000/3 and the second with 100000000/1: the pairs differ,
  and yet the loop stops after the second of its eleven possible passes.
\<close>

theorem C1_stops_on_unequal_pairs:
  "pe_do_clock_test drifting_test zero_globals 0 [(50000000, 1)]
     = Inr (\<lparr>bus_freq_num = 100000000, bus_freq_den = 1, cpu_pll = 5\<rparr>, 2)
   \<and> (pass_num drifting_test 0 [(50000000, 1)] 0, pass_den drifting_test 0 [(50000000, 1)] 0)
        = (100000000, 3)
   \<and> (pass_num drifting_test 0 [(50000000, 1)] 1, pass_den drifting_test 0 [(50000000, 1)] 1)
        = (100000000, 1)"
  by (simp add: run_eval zero_globals_def clock_eval pass_num_def pass_den_def drifting_test_def)

text \<open>
  Claim C1 as amended: the loop stops early exactly when the numerator of this pass
  equals the numerator of the pass before (0 for the first pass); the denominator is
  not compared.  For a run that returns after \<open>n\<close> passes: every pass before the last
  changed the numerator, and if \<open>n\<close> is below the eleven possible passes, the last
  pass left the numerator as it was.
\<close>

theorem C1_stops_on_equal_numerators:
  assumes "pe_do_clock_test run g0 addr speed_list = Inr (g, n)"
  shows "0 < n \<and> n \<le> 11 \<and>
         (\<forall>k<n - 1. pass_num run addr speed_list k \<noteq> last_num run addr speed_list k) \<and>
         (n < 11 \<longrightarrow>
              pass_num run addr speed_list (n - 1) = last_num run addr speed_list (n - 1))"
  using pe_do_clock_test_Inr [OF assms] by simp

theorem C1_stops_on_equal_numerators_witness:
  "pe_do_clock_test drifting_test zero_globals 0 [(50000000, 1)]
     = Inr (\<lparr>bus_freq_num = 100000000, bus_freq_den = 1, cpu_pll = 5\<rparr>, 2)
   \<and> pass_num drifting_test 0 [(50000000, 1)] 0 \<noteq> last_num drifting_test 0 [(50000000, 1)] 0
   \<and> pass_num drifting_test 0 [(50000000, 1)] 1 = last_num drifting_test 0 [(50000000, 1)] 1"
proof -
  have run: "pe_do_clock_test drifting_test zero_globals 0 [(50000000, 1)]
     = Inr (\<lparr>bus_freq_num = 100000000, bus_freq_den = 1, cpu_pll = 5\<rparr>, 2)"
    by (simp add: run_eval zero_globals_def clock_eval drifting_test_def)
  from C1_stops_on_equal_numerators [OF run] run show ?thesis by simp
qed

subsection \<open>The number of passes\<close>

text \<open>
  Claim C2 says that the loop makes at most 10 passes, that is at most 10 calls of the
  measuring routine.  The local \<^verbatim>\<open>tries\<close> starts at 10 and is decremented after it is
  tested, at the end of a pass, so the body runs once more after \<^verbatim>\<open>tries\<close> has reached
  0.  With \<open>unsteady_test\<close>, where no two consecutive passes agree, the routine is
  called 11 times.
\<close>

theorem C2_eleven_calls:
  "pe_do_clock_test unsteady_test zero_globals 0 [(100000000, 1)]
     = Inr (\<lparr>bus_freq_num = 99886694, bus_freq_den = 1, cpu_pll = 5\<rparr>, 11)"
  by (simp add: run_eval zero_globals_def clock_eval unsteady_test_def)

text \<open>What does hold: the loop always ends, after at most 11 calls.\<close>

lemma pe_do_clock_test_at_most_11:
  assumes "\<forall>k<11. fst (run k addr) \<noteq> 0 \<and> snd (run k addr) \<noteq> 0"
  shows "\<exists>g n. pe_do_clock_test run g0 addr speed_list = Inr (g, n) \<and> 0 < n \<and> n \<le> 11"
proof -
  from pe_do_clock_test_total [where run = run and addr = addr, OF assms] obtain g n
    where "pe_do_clock_test run g0 addr speed_list = Inr (g, n)" by blast
  with pe_do_clock_test_Inr [OF this] show ?thesis by blast
qed

subsection \<open>32-bit arithmetic where nothing wraps around\<close>

text \<open>
  Inside the range of \<^verbatim>\<open>long\<close> the operations of the code are those of the integers.
\<close>

lemma sint_w32:
  "- 2147483648 \<le> x \<Longrightarrow> x < 2147483648 \<Longrightarrow> sint (word_of_int x :: 32 word) = x"
  by (simp add: sint_sbintrunc' signed_take_bit_int_eq_self)

lemma sless_w32:
  assumes "- 2147483648 \<le> x" "x < 2147483648" "- 2147483648 \<le> y" "y < 2147483648"
  shows "((word_of_int x :: 32 word) <s word_of_int y) = (x < y)"
  using assms by (simp add: word_sless_alt sint_w32)

lemma abs_diff_w32:
  assumes "- 2147483648 < x" "x < 2147483648"
  shows "abs_diff (word_of_int x) = word_of_int \<bar>x\<bar>"
  using assms by (simp add: abs_diff_def word_sless_alt sint_w32)

lemma long_div_w32:
  assumes "0 \<le> x" "x < 2147483648" "0 < y" "y < 2147483648"
  shows "long_div (word_of_int x) (word_of_int y) = word_of_int (x div y)"
proof -
  have "x sdiv y = x div y"
    using assms by (cases "x = 0") (simp_all add: signed_divide_int_def)
  then show ?thesis
    using assms by (simp add: long_div_def sint_w32)
qed

lemma sint_32_range: "- 2147483648 \<le> sint (w :: 32 word) \<and> sint w < 2147483648"
  using sint_ge [of w] sint_lt [of w] by simp

lemma half_mhz_nearest:
  assumes "- 250000 \<le> sint raw" "sint raw \<le> 2147233647"
  shows "half_mhz raw = word_of_int (nearest_multiple 500000 (sint raw))"
proof -
  have "long_div (word_of_int (sint raw + 250000)) (word_of_int 500000)
          = word_of_int ((sint raw + 250000) div 500000)"
    using assms by (intro long_div_w32) simp_all
  moreover have "word_of_int (sint raw + 250000) = raw + 250000" by simp
  moreover have "word_of_int 500000 = (500000 :: 32 word)" by simp
  ultimately have "long_div (raw + 250000) 500000 = word_of_int ((sint raw + 250000) div 500000)"
    by (simp only:)
  then show ?thesis
    by (simp add: half_mhz_def nearest_multiple_def)
qed

lemma third_mhz_nearest:
  assumes "- 25000000 \<le> 3 * sint raw" "3 * sint raw \<le> 2122483647"
  shows "third_mhz raw = word_of_int (nearest_multiple 50000000 (3 * sint raw))"
proof -
  have "long_div (word_of_int (3 * sint raw + 25000000)) (word_of_int 50000000)
          = word_of_int ((3 * sint raw + 25000000) div 50000000)"
    using assms by (intro long_div_w32) simp_all
  moreover have "word_of_int (3 * sint raw + 25000000) = raw * 3 + 25000000" by simp
  moreover have "word_of_int 50000000 = (50000000 :: 32 word)" by simp
  ultimately have "long_div (raw * 3 + 25000000) 50000000
          = word_of_int ((3 * sint raw + 25000000) div 50000000)"
    by (simp only:)
  then show ?thesis
    by (simp add: third_mhz_def nearest_multiple_def)
qed

lemma nearest_multiple_bounds:
  assumes "0 < h"
  shows "- h < nearest_multiple (2 * h) v - v \<and> nearest_multiple (2 * h) v - v \<le> h"
proof -
  have "(v + h) div (2 * h) * (2 * h) = (v + h) - (v + h) mod (2 * h)"
    by (simp add: algebra_simps minus_mod_eq_div_mult)
  moreover have "0 \<le> (v + h) mod (2 * h)" "(v + h) mod (2 * h) < 2 * h"
    using assms by simp_all
  ultimately show ?thesis
    by (simp add: nearest_multiple_def)
qed

lemma nearest_multiple_dvd: "c dvd nearest_multiple c v"
  by (simp add: nearest_multiple_def)

lemma nearest_multiple_nearest:
  assumes "0 < h" and "2 * h dvd y"
  shows "\<bar>nearest_multiple (2 * h) v - v\<bar> \<le> \<bar>y - v\<bar>"
proof (cases "y = nearest_multiple (2 * h) v")
  case True
  then show ?thesis by simp
next
  case False
  let ?n = "nearest_multiple (2 * h) v"
  from assms(2) nearest_multiple_dvd [of "2 * h" v] have "2 * h dvd y - ?n"
    by (rule dvd_diff)
  then obtain k where k: "y - ?n = 2 * h * k" by (auto simp: dvd_def)
  with False have "k \<noteq> 0" by auto
  then have "1 \<le> \<bar>k\<bar>" by simp
  then have "2 * h * 1 \<le> 2 * h * \<bar>k\<bar>"
    using assms(1) by (intro mult_left_mono) simp_all
  then have "2 * h \<le> \<bar>y - ?n\<bar>"
    using k assms(1) by (simp add: abs_mult)
  with nearest_multiple_bounds [OF assms(1), of v] show ?thesis by linarith
qed

lemma nearest_multiple_unique:
  assumes "0 < h" and "2 * h dvd y" and "\<bar>y - v\<bar> < h"
  shows "y = nearest_multiple (2 * h) v"
proof (rule ccontr)
  assume ne: "y \<noteq> nearest_multiple (2 * h) v"
  let ?n = "nearest_multiple (2 * h) v"
  from assms(2) nearest_multiple_dvd [of "2 * h" v] have "2 * h dvd y - ?n"
    by (rule dvd_diff)
  then obtain k where k: "y - ?n = 2 * h * k" by (auto simp: dvd_def)
  with ne have "k \<noteq> 0" by auto
  then have "1 \<le> \<bar>k\<bar>" by simp
  then have "2 * h * 1 \<le> 2 * h * \<bar>k\<bar>"
    using assms(1) by (intro mult_left_mono) simp_all
  then have "2 * h \<le> \<bar>y - ?n\<bar>"
    using k assms(1) by (simp add: abs_mult)
  with nearest_multiple_bounds [OF assms(1), of v] assms(3) show False by linarith
qed

text \<open>
  Where the sums of lines 137 and 149 neither wrap around nor are negative, the two
  roundings give the nearest multiple, and the tests of lines 142 and 154 are the
  integer inequalities.
\<close>

lemma half_mhz_test:
  assumes "- 250000 \<le> sint raw" "sint raw \<le> 2147233647"
  shows "(abs_diff (half_mhz raw - raw) <s kMaxFreqDiff)
           = (\<bar>nearest_multiple 500000 (sint raw) - sint raw\<bar> < 30000)"
proof -
  let ?n = "nearest_multiple 500000 (sint raw)"
  from nearest_multiple_bounds [of 250000 "sint raw"]
  have b: "- 250000 < ?n - sint raw" "?n - sint raw \<le> 250000" by simp_all
  have "half_mhz raw - raw = word_of_int (?n - sint raw)"
    by (simp add: half_mhz_nearest [OF assms])
  moreover have "abs_diff (word_of_int (?n - sint raw)) = word_of_int \<bar>?n - sint raw\<bar>"
    using b by (intro abs_diff_w32) linarith+
  moreover have "kMaxFreqDiff = word_of_int 30000"
    by (simp add: kMaxFreqDiff_def)
  moreover have "((word_of_int \<bar>?n - sint raw\<bar> :: 32 word) <s word_of_int 30000)
                   = (\<bar>?n - sint raw\<bar> < 30000)"
    using b by (intro sless_w32) linarith+
  ultimately show ?thesis by (simp only:)
qed

lemma third_mhz_test:
  assumes "- 25000000 \<le> 3 * sint raw" "3 * sint raw \<le> 2122483647"
  shows "(abs_diff (third_mhz raw - raw * 3) <s kMaxFreqDiff * 3)
           = (\<bar>nearest_multiple 50000000 (3 * sint raw) - 3 * sint raw\<bar> < 90000)"
proof -
  let ?n = "nearest_multiple 50000000 (3 * sint raw)"
  from nearest_multiple_bounds [of 25000000 "3 * sint raw"]
  have b: "- 25000000 < ?n - 3 * sint raw" "?n - 3 * sint raw \<le> 25000000" by simp_all
  have "third_mhz raw - raw * 3 = word_of_int (?n - 3 * sint raw)"
    by (simp add: third_mhz_nearest [OF assms])
  moreover have "abs_diff (word_of_int (?n - 3 * sint raw)) = word_of_int \<bar>?n - 3 * sint raw\<bar>"
    using b by (intro abs_diff_w32) linarith+
  moreover have "kMaxFreqDiff * 3 = word_of_int 90000"
    by (simp add: kMaxFreqDiff_def)
  moreover have "((word_of_int \<bar>?n - 3 * sint raw\<bar> :: 32 word) <s word_of_int 90000)
                   = (\<bar>?n - 3 * sint raw\<bar> < 90000)"
    using b by (intro sless_w32) linarith+
  ultimately show ?thesis by (simp only:)
qed

lemma speed_search_first:
  assumes "i < length speed_list"
    and "speed_close raw (speed_list ! i)"
    and "\<forall>j<i. \<not> speed_close raw (speed_list ! j)"
  shows "speed_search raw speed_list = Some (speed_list ! i)"
  using assms
proof (induction speed_list arbitrary: i)
  case Nil
  then show ?case by simp
next
  case (Cons entry rest)
  show ?case
  proof (cases i)
    case 0
    with Cons.prems show ?thesis by simp
  next
    case (Suc i')
    with Cons.prems have "\<not> speed_close raw entry" by auto
    moreover have "speed_search raw rest = Some (rest ! i')"
    proof (rule Cons.IH)
      show "i' < length rest" using Cons.prems Suc by simp
      show "speed_close raw (rest ! i')" using Cons.prems Suc by simp
      show "\<forall>j<i'. \<not> speed_close raw (rest ! j)"
      proof (intro allI impI)
        fix j assume "j < i'"
        then have "Suc j < i" using Suc by simp
        with Cons.prems(3) have "\<not> speed_close raw ((entry # rest) ! Suc j)" by blast
        then show "\<not> speed_close raw (rest ! j)" by simp
      qed
    qed
    ultimately show ?thesis using Suc by simp
  qed
qed

lemma speed_search_None:
  "(speed_search raw speed_list = None) = (\<forall>entry\<in>set speed_list. \<not> speed_close raw entry)"
  by (induction speed_list) simp_all

lemma speed_close_within_tolerance:
  assumes "- 2147483648 \<le> sint raw * sint den" "sint raw * sint den < 2147483648"
    and "- 2147483648 < sint num - sint raw * sint den"
    and "sint num - sint raw * sint den < 2147483648"
    and "- 2147483648 \<le> 30000 * sint den" "30000 * sint den < 2147483648"
  shows "speed_close raw (num, den) = within_tolerance (sint raw) (sint num, sint den)"
proof -
  let ?x = "sint num - sint raw * sint den"
  have "num - raw * den = word_of_int ?x" by simp
  moreover have "abs_diff (word_of_int ?x) = word_of_int \<bar>?x\<bar>"
    using assms(3,4) by (intro abs_diff_w32)
  moreover have "kMaxFreqDiff * den = word_of_int (30000 * sint den)"
    by (simp add: kMaxFreqDiff_def)
  moreover have "((word_of_int \<bar>?x\<bar> :: 32 word) <s word_of_int (30000 * sint den))
                   = (\<bar>?x\<bar> < 30000 * sint den)"
    using assms by (intro sless_w32) linarith+
  ultimately have "(abs_diff (num - raw * den) <s kMaxFreqDiff * den)
      = (\<bar>?x\<bar> < 30000 * sint den)"
    by (simp only:)
  then show ?thesis
    by (simp add: speed_close_def within_tolerance_def)
qed

text \<open>
  Under \<open>test_exact\<close> the test of lines 129-132 is the tolerance test on the integers.
\<close>

lemma sint_eq_uint_32:
  assumes "uint (w :: 32 word) < 2147483648"
  shows "sint w = uint w"
proof -
  have "0 \<le> uint w" by simp
  then have "- 2147483648 \<le> uint w" by linarith
  then have "sint (word_of_int (uint w) :: 32 word) = uint w"
    using assms by (intro sint_w32)
  then show ?thesis by (simp only: word_of_int_uint)
qed

lemma speed_close_exact:
  assumes "test_exact raw entry"
  shows "speed_close raw entry = within_tolerance (sint raw) (entry_value entry)"
proof (cases entry)
  case (Pair num den)
  with assms have ex: "uint num < 2147483648" "uint den < 2147483648"
    "- 2147483648 \<le> sint raw * uint den" "sint raw * uint den < 2147483648"
    "- 2147483648 < uint num - sint raw * uint den"
    "uint num - sint raw * uint den < 2147483648"
    "30000 * uint den < 2147483648"
    by (simp_all add: test_exact_def)
  have n: "sint num = uint num" and d: "sint den = uint den"
    using ex(1,2) by (simp_all only: sint_eq_uint_32)
  have "0 \<le> uint den" by simp
  then have "- 2147483648 \<le> 30000 * uint den" by linarith
  with ex have "speed_close raw (num, den) = within_tolerance (sint raw) (sint num, sint den)"
    by (intro speed_close_within_tolerance) (simp_all only: n d)
  then show ?thesis
    by (simp only: Pair entry_value_def n d prod.case)
qed

subsection \<open>The table search\<close>

text \<open>The pass ends with the first entry at which the \<^verbatim>\<open>for\<close> loop breaks.\<close>

lemma clock_test_pass_first_close:
  assumes "dec_ticks d \<noteq> 0" and "via_ticks d \<noteq> 0"
    and "i < length speed_list"
    and "speed_close (raw_bus_speed (dec_ticks d) (via_ticks d)) (speed_list ! i)"
    and "\<forall>j<i. \<not> speed_close (raw_bus_speed (dec_ticks d) (via_ticks d)) (speed_list ! j)"
  shows "clock_test_pass d speed_list =
           Inr \<lparr>bus_freq_num = fst (speed_list ! i), bus_freq_den = snd (speed_list ! i),
                cpu_pll = pll_mode (dec_ticks d)\<rparr>"
proof -
  have "best_fit (raw_bus_speed (dec_ticks d) (via_ticks d)) speed_list = speed_list ! i"
    using speed_search_first [OF assms(3,4,5)] by (simp add: best_fit_def)
  then show ?thesis
    using assms(1,2) by (simp add: clock_test_pass_Inr)
qed

text \<open>
  Claim C3 says that for a non-empty table and a pass whose raw bus frequency is
  within tolerance of some entry, where (num, den) is within tolerance iff
  \<open>|num - rawBusFreq * den| < 30000 * den\<close>, the pass ends with the first such entry in
  table order.  The code computes the test in \<^verbatim>\<open>long\<close>.  For \<open>sample_31334\<close> the raw bus
  frequency is 100001455; fifty times that is 5000072750, which is 705105454 in 32
  bits.  With the table [(705105454, 50), (100000000, 1)] the first entry is not
  within tolerance and the second is, and the pass ends with the first.
\<close>

theorem C3_wrapped_entry_wins:
  "raw_bus_speed (dec_ticks sample_31334) (via_ticks sample_31334) = 100001455
   \<and> sint (100001455 :: long) = 100001455
   \<and> entry_value (705105454, 50) = (705105454, 50)
   \<and> entry_value (100000000, 1) = (100000000, 1)
   \<and> \<not> within_tolerance 100001455 (705105454, 50)
   \<and> within_tolerance 100001455 (100000000, 1)
   \<and> clock_test_pass sample_31334 [(705105454, 50), (100000000, 1)]
       = Inr \<lparr>bus_freq_num = 705105454, bus_freq_den = 50, cpu_pll = 5\<rparr>"
  by (simp add: clock_eval within_tolerance_def entry_value_def sample_31334_def)

text \<open>
  Claim C3 as amended: the same, provided that the code computes the tolerance test
  exactly (\<open>test_exact\<close>) for the first entry within tolerance and for every entry
  before it.  The pass then ends with that entry (which need not be the closest),
  whatever the fallback tiers would have chosen.  Entry \<open>i\<close> is the first within
  tolerance when no entry \<open>j < i\<close> is.
\<close>

theorem C3_first_entry_within_tolerance_wins:
  assumes "dec_ticks d \<noteq> 0" and "via_ticks d \<noteq> 0"
    and "raw = raw_bus_speed (dec_ticks d) (via_ticks d)"
    and "i < length speed_list"
    and "\<forall>j<Suc i. test_exact raw (speed_list ! j)"
    and "within_tolerance (sint raw) (entry_value (speed_list ! i))"
    and "\<forall>j<i. \<not> within_tolerance (sint raw) (entry_value (speed_list ! j))"
  shows "clock_test_pass d speed_list =
           Inr \<lparr>bus_freq_num = fst (speed_list ! i), bus_freq_den = snd (speed_list ! i),
                cpu_pll = pll_mode (dec_ticks d)\<rparr>"
proof -
  have "speed_close raw (speed_list ! i)"
    using assms(5,6) by (simp add: speed_close_exact)
  moreover have "\<forall>j<i. \<not> speed_close raw (speed_list ! j)"
    using assms(5,7) by (simp add: speed_close_exact)
  ultimately show ?thesis
    using assms(1,2,4) unfolding assms(3) by (rule clock_test_pass_first_close [rotated 3])
qed

text \<open>
  An instance: the second and the third entry are both within tolerance, the third is
  closer and is what the half-MHz tier would give; the second wins.
\<close>

theorem C3_first_entry_within_tolerance_wins_witness:
  "clock_test_pass sample_31334 [(50000000, 1), (100020000, 1), (100000000, 1)]
     = Inr \<lparr>bus_freq_num = 100020000, bus_freq_den = 1, cpu_pll = 5\<rparr>
   \<and> raw_bus_speed (dec_ticks sample_31334) (via_ticks sample_31334) = 100001455
   \<and> \<not> within_tolerance 100001455 (50000000, 1)
   \<and> within_tolerance 100001455 (100020000, 1)
   \<and> within_tolerance 100001455 (100000000, 1)
   \<and> fallback 100001455 = (100000000, 1)"
proof -
  have raw: "raw_bus_speed (dec_ticks sample_31334) (via_ticks sample_31334) = 100001455"
    by (simp add: clock_eval sample_31334_def)
  have exact: "\<forall>j<Suc 1. test_exact 100001455
                  ([(50000000, 1), (100020000, 1), (100000000, 1)] ! j)"
    by (simp add: All_less_Suc test_exact_def)
  have far: "\<not> within_tolerance 100001455 (50000000, 1)"
    by (simp add: within_tolerance_def)
  have near1: "within_tolerance 100001455 (100020000, 1)"
    by (simp add: within_tolerance_def)
  have near2: "within_tolerance 100001455 (100000000, 1)"
    by (simp add: within_tolerance_def)
  have fb: "fallback 100001455 = (100000000, 1)"
    by (simp add: clock_eval)
  have "clock_test_pass sample_31334 [(50000000, 1), (100020000, 1), (100000000, 1)]
     = Inr \<lparr>bus_freq_num = 100020000, bus_freq_den = 1, cpu_pll = pll_mode (dec_ticks sample_31334)\<rparr>"
    using C3_first_entry_within_tolerance_wins
      [of sample_31334 100001455 1 "[(50000000, 1), (100020000, 1), (100000000, 1)]"]
      raw exact far near1
    by (simp add: sample_31334_def entry_value_def)
  moreover have "pll_mode (dec_ticks sample_31334) = 5"
    by (simp add: clock_eval sample_31334_def)
  ultimately show ?thesis using raw far near1 near2 fb by simp
qed

subsection \<open>The half-MHz tier\<close>

text \<open>The pass when the \<^verbatim>\<open>for\<close> loop breaks at no entry and line 137 rounds exactly.\<close>

lemma clock_test_pass_half_mhz:
  assumes "dec_ticks d \<noteq> 0" and "via_ticks d \<noteq> 0"
    and "raw = raw_bus_speed (dec_ticks d) (via_ticks d)"
    and "\<forall>entry\<in>set speed_list. \<not> speed_close raw entry"
    and "- 250000 \<le> sint raw" and "sint raw \<le> 2147233647"
    and "\<bar>nearest_multiple 500000 (sint raw) - sint raw\<bar> < 30000"
  shows "clock_test_pass d speed_list =
           Inr \<lparr>bus_freq_num = word_of_int (nearest_multiple 500000 (sint raw)),
                bus_freq_den = 1, cpu_pll = pll_mode (dec_ticks d)\<rparr>"
proof -
  have "speed_search raw speed_list = None"
    using assms(4) by (simp add: speed_search_None)
  moreover have "abs_diff (half_mhz raw - raw) <s kMaxFreqDiff"
    using assms(7) by (simp only: half_mhz_test [OF assms(5,6)])
  ultimately have "best_fit raw speed_list = (word_of_int (nearest_multiple 500000 (sint raw)), 1)"
    by (simp add: best_fit_def fallback_def half_mhz_nearest [OF assms(5,6)])
  then show ?thesis
    using assms(1,2,3) by (simp add: clock_test_pass_Inr)
qed

text \<open>
  Claim C4 says that every pass with no table entry within tolerance whose raw bus
  frequency is less than 30000 away from its nearest multiple of 500,000 ends with
  that multiple over 1.  Line 137 rounds with the truncating division of \<^verbatim>\<open>long\<close>,
  which gives the nearest multiple only for a dividend that is not negative.  The
  sample \<open>sample_1360\<close> has a 64-bit quotient of 4261486036; as a \<^verbatim>\<open>long\<close> it is
  -33481260.  Read either way it is less than 30000 away from a multiple of 500,000
  (-33500000, or 4261500000); line 137 gives -33000000, and the pass ends with the raw
  value over 1.  No operation of this pass wraps around.  The table test is computed
  in \<^verbatim>\<open>long\<close> as well: for \<open>sample_7013\<close> the raw bus frequency is 1464990273, which is
  9727 away from 1465000000; the entry (100000000, 3) is not within tolerance, but
  three times the raw frequency is 100003523 in 32 bits, and the pass ends with that
  entry.
\<close>

theorem C4_half_mhz_not_taken:
  "raw_bus_speed (dec_ticks sample_1360) (via_ticks sample_1360) = - 33481260
   \<and> sint (- 33481260 :: long) = - 33481260
   \<and> test_exact (- 33481260) (100000000, 1)
   \<and> \<not> within_tolerance (- 33481260) (entry_value (100000000, 1))
   \<and> nearest_multiple 500000 (- 33481260) = - 33500000
   \<and> \<bar>- 33500000 - (- 33481260)\<bar> < (30000 :: int)
   \<and> uint (- 33481260 :: long) = 4261486036
   \<and> nearest_multiple 500000 4261486036 = 4261500000
   \<and> \<bar>4261500000 - 4261486036\<bar> < (30000 :: int)
   \<and> half_mhz (- 33481260) = - 33000000
   \<and> clock_test_pass sample_1360 [(100000000, 1)]
       = Inr \<lparr>bus_freq_num = - 33481260, bus_freq_den = 1, cpu_pll = 3676\<rparr>
   \<and> raw_bus_speed (dec_ticks sample_7013) (via_ticks sample_7013) = 1464990273
   \<and> sint (1464990273 :: long) = 1464990273
   \<and> \<not> within_tolerance 1464990273 (entry_value (100000000, 3))
   \<and> nearest_multiple 500000 1464990273 = 1465000000
   \<and> \<bar>1465000000 - 1464990273\<bar> < (30000 :: int)
   \<and> clock_test_pass sample_7013 [(100000000, 3)]
       = Inr \<lparr>bus_freq_num = 100000000, bus_freq_den = 3, cpu_pll = 713\<rparr>"
  by (simp add: clock_eval nearest_multiple_def within_tolerance_def entry_value_def
        test_exact_def sample_1360_def sample_7013_def)

text \<open>
  Claim C4 as amended: the same, for a raw bus frequency \<open>r\<close> (the value of the \<^verbatim>\<open>long\<close>
  \<^verbatim>\<open>raw_bus_freq\<close>) with \<open>-250000 \<le> r \<le> 2147233647\<close>, that is when \<open>r + 250000\<close> is not
  negative and fits in a \<^verbatim>\<open>long\<close>, and for a table such that the code computes the
  tolerance test of each entry exactly (\<open>test_exact\<close>).  A multiple of 500,000 less
  than 30000 away from \<open>r\<close> is the nearest one (\<open>nearest_multiple_unique\<close>).
\<close>

theorem C4_half_mhz_snap:
  assumes "dec_ticks d \<noteq> 0" and "via_ticks d \<noteq> 0"
    and "raw = raw_bus_speed (dec_ticks d) (via_ticks d)"
    and "\<forall>entry\<in>set speed_list.
           test_exact raw entry \<and> \<not> within_tolerance (sint raw) (entry_value entry)"
    and "- 250000 \<le> sint raw" and "sint raw \<le> 2147233647"
    and "\<bar>nearest_multiple 500000 (sint raw) - sint raw\<bar> < 30000"
  shows "clock_test_pass d speed_list =
           Inr \<lparr>bus_freq_num = word_of_int (nearest_multiple 500000 (sint raw)),
                bus_freq_den = 1, cpu_pll = pll_mode (dec_ticks d)\<rparr>"
proof -
  have "\<forall>entry\<in>set speed_list. \<not> speed_close raw entry"
    using assms(4) by (simp add: speed_close_exact)
  then show ?thesis
    by (rule clock_test_pass_half_mhz [OF assms(1,2,3) _ assms(5,6,7)])
qed

theorem C4_half_mhz_snap_witness:
  "raw_bus_speed (dec_ticks sample_31334) (via_ticks sample_31334) = 100001455
   \<and> test_exact 100001455 (50000000, 1)
   \<and> \<not> within_tolerance 100001455 (50000000, 1)
   \<and> nearest_multiple 500000 100001455 = 100000000
   \<and> clock_test_pass sample_31334 [(50000000, 1)]
       = Inr \<lparr>bus_freq_num = 100000000, bus_freq_den = 1, cpu_pll = 5\<rparr>"
proof -
  have raw: "raw_bus_speed (dec_ticks sample_31334) (via_ticks sample_31334) = 100001455"
    by (simp add: clock_eval sample_31334_def)
  have exact: "test_exact 100001455 (50000000, 1)"
    by (simp add: test_exact_def)
  have far: "\<not> within_tolerance 100001455 (50000000, 1)"
    by (simp add: within_tolerance_def)
  have near: "nearest_multiple 500000 100001455 = 100000000"
    by (simp add: nearest_multiple_def)
  have "clock_test_pass sample_31334 [(50000000, 1)]
     = Inr \<lparr>bus_freq_num = word_of_int (nearest_multiple 500000 (sint (100001455 :: long))),
            bus_freq_den = 1, cpu_pll = pll_mode (dec_ticks sample_31334)\<rparr>"
    using C4_half_mhz_snap [of sample_31334 100001455 "[(50000000, 1)]"] raw exact far near
    by (simp add: sample_31334_def entry_value_def)
  moreover have "pll_mode (dec_ticks sample_31334) = 5"
    by (simp add: clock_eval sample_31334_def)
  ultimately show ?thesis using raw exact far near by simp
qed

subsection \<open>The 50/3 MHz tier and the pass-through\<close>

text \<open>
  Claim C5 says that every pass accepted neither by the table nor by the half-MHz
  tier ends with (the nearest multiple of 50,000,000 to three times the raw
  frequency, 3) when that multiple is less than 90000 away, and with (the raw
  frequency, 1) otherwise.  Line 149 computes \<^verbatim>\<open>raw_bus_freq * 3 + 25000000\<close> in \<^verbatim>\<open>long\<close>
  and divides truncating.  For \<open>sample_6787\<close> the raw frequency is 733334323, three
  times that is 2969 away from 2200000000, but the product does not fit in a \<^verbatim>\<open>long\<close>
  and the pass ends with the raw frequency over 1.  For \<open>sample_2635\<close> the raw frequency
  is the negative \<^verbatim>\<open>long\<close> -166652699, three times that is 41903 away from -500000000,
  and the pass ends with the raw frequency over 1 as well.
\<close>

theorem C5_third_mhz_missed:
  "raw_bus_speed (dec_ticks sample_6787) (via_ticks sample_6787) = 733334323
   \<and> sint (733334323 :: long) = 733334323
   \<and> \<not> speed_close 733334323 (100000000, 1)
   \<and> \<not> abs_diff (half_mhz 733334323 - 733334323) <s kMaxFreqDiff
   \<and> nearest_multiple 50000000 (3 * 733334323) = 2200000000
   \<and> \<bar>2200000000 - 3 * 733334323\<bar> < (90000 :: int)
   \<and> clock_test_pass sample_6787 [(100000000, 1)]
       = Inr \<lparr>bus_freq_num = 733334323, bus_freq_den = 1, cpu_pll = 737\<rparr>
   \<and> raw_bus_speed (dec_ticks sample_2635) (via_ticks sample_2635) = - 166652699
   \<and> sint (- 166652699 :: long) = - 166652699
   \<and> \<not> speed_close (- 166652699) (100000000, 1)
   \<and> \<not> abs_diff (half_mhz (- 166652699) - (- 166652699)) <s kMaxFreqDiff
   \<and> nearest_multiple 50000000 (3 * (- 166652699)) = - 500000000
   \<and> \<bar>- 500000000 - 3 * (- 166652699)\<bar> < (90000 :: int)
   \<and> clock_test_pass sample_2635 [(100000000, 1)]
       = Inr \<lparr>bus_freq_num = - 166652699, bus_freq_den = 1, cpu_pll = 1898\<rparr>"
  by (simp add: clock_eval nearest_multiple_def sample_2635_def sample_6787_def)

text \<open>
  Claim C5 as amended: the same, for a raw bus frequency \<open>r\<close> with
  \<open>-25000000 \<le> 3 * r \<le> 2122483647\<close>, that is when \<open>3 * r + 25000000\<close> is not negative and
  fits in a \<^verbatim>\<open>long\<close>.  In either case the pass ends with an accepted frequency; that
  it does so for every sample with non-zero tick counts is \<open>clock_test_pass_Inr\<close>.
\<close>

theorem C5_third_mhz_or_raw:
  assumes "dec_ticks d \<noteq> 0" and "via_ticks d \<noteq> 0"
    and "raw = raw_bus_speed (dec_ticks d) (via_ticks d)"
    and "\<forall>entry\<in>set speed_list. \<not> speed_close raw entry"
    and "\<not> abs_diff (half_mhz raw - raw) <s kMaxFreqDiff"
    and "- 25000000 \<le> 3 * sint raw" and "3 * sint raw \<le> 2122483647"
  shows "clock_test_pass d speed_list =
           (if \<bar>nearest_multiple 50000000 (3 * sint raw) - 3 * sint raw\<bar> < 90000
            then Inr \<lparr>bus_freq_num = word_of_int (nearest_multiple 50000000 (3 * sint raw)),
                      bus_freq_den = 3, cpu_pll = pll_mode (dec_ticks d)\<rparr>
            else Inr \<lparr>bus_freq_num = raw, bus_freq_den = 1, cpu_pll = pll_mode (dec_ticks d)\<rparr>)"
proof -
  have "speed_search raw speed_list = None"
    using assms(4) by (simp add: speed_search_None)
  moreover have "fallback raw =
           (if \<bar>nearest_multiple 50000000 (3 * sint raw) - 3 * sint raw\<bar> < 90000
            then (third_mhz raw, 3) else (raw, 1))"
    using assms(5) by (simp only: fallback_def third_mhz_test [OF assms(6,7)] if_False)
  ultimately have "best_fit raw speed_list =
           (if \<bar>nearest_multiple 50000000 (3 * sint raw) - 3 * sint raw\<bar> < 90000
            then (word_of_int (nearest_multiple 50000000 (3 * sint raw)), 3) else (raw, 1))"
    by (simp add: best_fit_def third_mhz_nearest [OF assms(6,7)])
  then show ?thesis
    using assms(1,2,3) by (simp add: clock_test_pass_Inr)
qed

theorem C5_third_mhz_or_raw_witness:
  "clock_test_pass sample_94003 [(50000000, 1)]
       = Inr \<lparr>bus_freq_num = 100000000, bus_freq_den = 3, cpu_pll = 5\<rparr>
   \<and> clock_test_pass sample_31000 [(50000000, 1)]
       = Inr \<lparr>bus_freq_num = 101078890, bus_freq_den = 1, cpu_pll = 5\<rparr>"
proof -
  have raw1: "raw_bus_speed (dec_ticks sample_94003) (via_ticks sample_94003) = 33333463"
    by (simp add: clock_eval sample_31000_def sample_94003_def)
  have far1: "\<not> speed_close 33333463 (50000000, 1)"
    by (simp add: clock_eval)
  have half1: "\<not> abs_diff (half_mhz 33333463 - 33333463) <s kMaxFreqDiff"
    by (simp add: clock_eval)
  have near1: "nearest_multiple 50000000 100000389 = 100000000"
    by (simp add: clock_eval nearest_multiple_def)
  have raw2: "raw_bus_speed (dec_ticks sample_31000) (via_ticks sample_31000) = 101078890"
    by (simp add: clock_eval sample_31000_def sample_94003_def)
  have far2: "\<not> speed_close 101078890 (50000000, 1)"
    by (simp add: clock_eval)
  have half2: "\<not> abs_diff (half_mhz 101078890 - 101078890) <s kMaxFreqDiff"
    by (simp add: clock_eval)
  have near2: "nearest_multiple 50000000 303236670 = 300000000"
    by (simp add: clock_eval nearest_multiple_def)
  have pll: "pll_mode 1000000 = 5"
    by (simp add: clock_eval)
  have "clock_test_pass sample_94003 [(50000000, 1)]
       = Inr \<lparr>bus_freq_num = 100000000, bus_freq_den = 3, cpu_pll = 5\<rparr>"
    using C5_third_mhz_or_raw [of sample_94003 33333463 "[(50000000, 1)]"] raw1 far1 half1 near1 pll
    by (simp add: sample_31000_def sample_94003_def)
  moreover have "clock_test_pass sample_31000 [(50000000, 1)]
       = Inr \<lparr>bus_freq_num = 101078890, bus_freq_den = 1, cpu_pll = 5\<rparr>"
    using C5_third_mhz_or_raw [of sample_31000 101078890 "[(50000000, 1)]"] raw2 far2 half2 near2 pll
    by (simp add: sample_31000_def sample_94003_def)
  ultimately show ?thesis by simp
qed

subsection \<open>The report\<close>

text \<open>
  The denominator left by a pass is one of the table or 1 or 3; when the table has
  positive denominators only, neither division of the report is by zero.
\<close>

lemma speed_search_Some_mem:
  "speed_search raw speed_list = Some entry \<Longrightarrow> entry \<in> set speed_list"
  by (induction speed_list) (auto split: if_splits)

lemma best_fit_den_positive:
  assumes "\<forall>entry\<in>set speed_list. 0 <s snd entry"
  shows "0 <s snd (best_fit raw speed_list)"
proof (cases "speed_search raw speed_list")
  case None
  then show ?thesis
    by (simp add: best_fit_def fallback_def word_sless_alt)
next
  case (Some entry)
  with assms speed_search_Some_mem [OF Some] show ?thesis
    by (simp add: best_fit_def)
qed

lemma positive_den_no_fault:
  assumes "0 <s (den :: long)"
  shows "den \<noteq> 0 \<and> den * 2 \<noteq> 0"
proof
  from assms have pos: "0 < sint den" by (simp add: word_sless_alt)
  then show "den \<noteq> 0" by auto
  have lt: "sint den < 2147483648" using sint_32_range [of den] by simp
  show "den * 2 \<noteq> 0"
  proof
    assume "den * 2 = 0"
    moreover have "den * 2 = word_of_int (2 * sint den)" by simp
    ultimately have "(word_of_int (2 * sint den) :: long) = 0" by (simp only:)
    then have "(2 ^ LENGTH(32) :: int) dvd 2 * sint den"
      by (simp only: word_of_int_eq_0_iff)
    then have "(4294967296 :: int) dvd 2 * sint den" by simp
    then obtain k where k: "2 * sint den = 4294967296 * k" by (auto simp: dvd_def)
    show False
    proof (cases "k \<le> 0")
      case True
      with k pos show False by linarith
    next
      case False
      with k lt show False by linarith
    qed
  qed
qed

lemma report_clock_speeds_Inr:
  assumes "bus_freq_den g \<noteq> 0" and "bus_freq_den g * 2 \<noteq> 0"
  shows "report_clock_speeds g =
     Inr \<lparr>bus_clock_rate_hz = long_div (bus_freq_num g) (bus_freq_den g),
          cpu_clock_rate_hz =
            ucast (((scast (bus_freq_num g) :: ulonglong) * scast (cpu_pll g))
                     div scast (bus_freq_den g * 2)),
          dec_clock_rate_hz = long_div (bus_freq_num g) (bus_freq_den g) div 4,
          bus_clock_rate_num = bus_freq_num g,
          bus_clock_rate_den = bus_freq_den g,
          bus_to_cpu_rate_num = cpu_pll g,
          bus_to_cpu_rate_den = 2,
          bus_to_dec_rate_num = 1,
          bus_to_dec_rate_den = 4\<rparr>"
  using assms by (simp add: report_clock_speeds_def Let_def)

lemma report_clock_speeds_InrD:
  assumes "report_clock_speeds g = Inr info"
  shows "info =
     \<lparr>bus_clock_rate_hz = long_div (bus_freq_num g) (bus_freq_den g),
          cpu_clock_rate_hz =
            ucast (((scast (bus_freq_num g) :: ulonglong) * scast (cpu_pll g))
                     div scast (bus_freq_den g * 2)),
          dec_clock_rate_hz = long_div (bus_freq_num g) (bus_freq_den g) div 4,
          bus_clock_rate_num = bus_freq_num g,
          bus_clock_rate_den = bus_freq_den g,
          bus_to_cpu_rate_num = cpu_pll g,
          bus_to_cpu_rate_den = 2,
          bus_to_dec_rate_num = 1,
          bus_to_dec_rate_den = 4\<rparr>"
  using assms by (auto simp add: report_clock_speeds_def Let_def split: if_splits)

lemma PE_Determine_Clock_Speeds_InrD:
  assumes "PE_Determine_Clock_Speeds run g0 addr speed_list = Inr info"
  shows "\<exists>g n. pe_do_clock_test run g0 addr speed_list = Inr (g, n) \<and>
               report_clock_speeds g = Inr info"
  using assms by (auto simp add: PE_Determine_Clock_Speeds_def split: sum.splits)

lemma report_best_fit:
  assumes "clock_test_pass d speed_list = Inr g"
    and "\<forall>entry\<in>set speed_list. 0 <s snd entry"
  shows "report_clock_speeds g =
     Inr \<lparr>bus_clock_rate_hz = long_div (bus_freq_num g) (bus_freq_den g),
          cpu_clock_rate_hz =
            ucast (((scast (bus_freq_num g) :: ulonglong) * scast (cpu_pll g))
                     div scast (bus_freq_den g * 2)),
          dec_clock_rate_hz = long_div (bus_freq_num g) (bus_freq_den g) div 4,
          bus_clock_rate_num = bus_freq_num g,
          bus_clock_rate_den = bus_freq_den g,
          bus_to_cpu_rate_num = cpu_pll g,
          bus_to_cpu_rate_den = 2,
          bus_to_dec_rate_num = 1,
          bus_to_dec_rate_den = 4\<rparr>"
proof -
  from clock_test_pass_InrD [OF assms(1)]
  have "bus_freq_den g = snd (best_fit (raw_bus_speed (dec_ticks d) (via_ticks d)) speed_list)"
    by simp
  with best_fit_den_positive [OF assms(2)] have "0 <s bus_freq_den g" by simp
  from positive_den_no_fault [OF this] show ?thesis
    by (simp add: report_clock_speeds_Inr)
qed

text \<open>The first calls, one by one.\<close>

lemma all_less_10:
  "(\<forall>k<10. P (k :: nat)) =
     (P 0 \<and> P 1 \<and> P 2 \<and> P 3 \<and> P 4 \<and> P 5 \<and> P 6 \<and> P 7 \<and> P 8 \<and> P 9)"
  by (simp add: eval_nat_numeral All_less_Suc conj_ac)

lemma all_less_11:
  "(\<forall>k<11. P (k :: nat)) =
     (P 0 \<and> P 1 \<and> P 2 \<and> P 3 \<and> P 4 \<and> P 5 \<and> P 6 \<and> P 7 \<and> P 8 \<and> P 9 \<and> P 10)"
  by (simp add: eval_nat_numeral All_less_Suc conj_ac)

subsection \<open>The decrementer rate\<close>

text \<open>
  Claim C6: whatever tier gave the final estimate, the reported decrementer rate is
  the reported bus rate in Hz divided by 4 in integer division, where the bus rate in
  Hz is the quotient of \<^verbatim>\<open>bus_freq_num\<close> by \<^verbatim>\<open>bus_freq_den\<close> (the division of \<^verbatim>\<open>long\<close>
  of line 68), and the reported bus-to-decrementer pair is the constant (1, 4).  The
  statement is about every run that returns, for every table and every measurement.
\<close>

theorem C6_decrementer_rate:
  assumes "PE_Determine_Clock_Speeds run g0 addr speed_list = Inr info"
  shows "\<exists>g n. pe_do_clock_test run g0 addr speed_list = Inr (g, n) \<and>
           bus_clock_rate_hz info = long_div (bus_freq_num g) (bus_freq_den g) \<and>
           dec_clock_rate_hz info = bus_clock_rate_hz info div 4 \<and>
           unat (dec_clock_rate_hz info) = unat (bus_clock_rate_hz info) div 4 \<and>
           bus_to_dec_rate_num info = 1 \<and> bus_to_dec_rate_den info = 4"
proof -
  from PE_Determine_Clock_Speeds_InrD [OF assms] obtain g n where
    run: "pe_do_clock_test run g0 addr speed_list = Inr (g, n)"
    and rep: "report_clock_speeds g = Inr info" by blast
  note info = report_clock_speeds_InrD [OF rep]
  have "dec_clock_rate_hz info = bus_clock_rate_hz info div 4"
    by (simp add: info)
  moreover from this have "unat (dec_clock_rate_hz info) = unat (bus_clock_rate_hz info) div 4"
    by (simp add: unat_div)
  moreover have "bus_clock_rate_hz info = long_div (bus_freq_num g) (bus_freq_den g)"
    and "bus_to_dec_rate_num info = 1" and "bus_to_dec_rate_den info = 4"
    by (simp_all add: info)
  ultimately show ?thesis using run by blast
qed

text \<open>Two runs, one ending in the half-MHz tier and one in the 50/3 MHz tier.\<close>

theorem C6_decrementer_rate_witness:
  "PE_Determine_Clock_Speeds drifting_test zero_globals 0 []
     = Inr \<lparr>bus_clock_rate_hz = 100000000, cpu_clock_rate_hz = 250000000,
            dec_clock_rate_hz = 25000000, bus_clock_rate_num = 100000000,
            bus_clock_rate_den = 1, bus_to_cpu_rate_num = 5, bus_to_cpu_rate_den = 2,
            bus_to_dec_rate_num = 1, bus_to_dec_rate_den = 4\<rparr>
   \<and> PE_Determine_Clock_Speeds (constant_test 94003 1000000) zero_globals 0 []
     = Inr \<lparr>bus_clock_rate_hz = 33333333, cpu_clock_rate_hz = 83333333,
            dec_clock_rate_hz = 8333333, bus_clock_rate_num = 100000000,
            bus_clock_rate_den = 3, bus_to_cpu_rate_num = 5, bus_to_cpu_rate_den = 2,
            bus_to_dec_rate_num = 1, bus_to_dec_rate_den = 4\<rparr>"
proof -
  have a: "PE_Determine_Clock_Speeds drifting_test zero_globals 0 []
     = Inr \<lparr>bus_clock_rate_hz = 100000000, cpu_clock_rate_hz = 250000000,
            dec_clock_rate_hz = 25000000, bus_clock_rate_num = 100000000,
            bus_clock_rate_den = 1, bus_to_cpu_rate_num = 5, bus_to_cpu_rate_den = 2,
            bus_to_dec_rate_num = 1, bus_to_dec_rate_den = 4\<rparr>"
    by (simp add: run_eval zero_globals_def clock_eval drifting_test_def)
  have b: "PE_Determine_Clock_Speeds (constant_test 94003 1000000) zero_globals 0 []
     = Inr \<lparr>bus_clock_rate_hz = 33333333, cpu_clock_rate_hz = 83333333,
            dec_clock_rate_hz = 8333333, bus_clock_rate_num = 100000000,
            bus_clock_rate_den = 3, bus_to_cpu_rate_num = 5, bus_to_cpu_rate_den = 2,
            bus_to_dec_rate_num = 1, bus_to_dec_rate_den = 4\<rparr>"
    by (simp add: run_eval zero_globals_def clock_eval constant_test_def)
  from C6_decrementer_rate [OF a] C6_decrementer_rate [OF b] a b show ?thesis by simp
qed

subsection \<open>A run that never settles\<close>

text \<open>
  Claim C7: when the budget of passes is used up without two consecutive passes that
  agree, the routine does not fail: it reports the estimate of the last pass, with
  every field of the report assigned as in a run that settled.  The budget is used up
  when each of the first ten passes changed the numerator; the eleventh pass is then
  the last whether it changes the numerator or not.  As everywhere, the measuring
  routine is taken to return non-zero tick counts and the table to hold positive
  denominators, without which lines 113, 118, 68 and 69 divide by zero.
\<close>

theorem C7_exhausted_budget_reports_last_pass:
  assumes ticks: "\<forall>k<11. fst (run k addr) \<noteq> 0 \<and> snd (run k addr) \<noteq> 0"
    and dens: "\<forall>entry\<in>set speed_list. 0 <s snd entry"
    and unstable: "\<forall>k<10. pass_num run addr speed_list k \<noteq> last_num run addr speed_list k"
  shows "\<exists>g. clock_test_pass (call_test run addr 10) speed_list = Inr g \<and>
           pe_do_clock_test run g0 addr speed_list = Inr (g, 11) \<and>
           PE_Determine_Clock_Speeds run g0 addr speed_list =
             Inr \<lparr>bus_clock_rate_hz = long_div (bus_freq_num g) (bus_freq_den g),
                  cpu_clock_rate_hz =
                    ucast (((scast (bus_freq_num g) :: ulonglong) * scast (cpu_pll g))
                             div scast (bus_freq_den g * 2)),
                  dec_clock_rate_hz = long_div (bus_freq_num g) (bus_freq_den g) div 4,
                  bus_clock_rate_num = bus_freq_num g,
                  bus_clock_rate_den = bus_freq_den g,
                  bus_to_cpu_rate_num = cpu_pll g,
                  bus_to_cpu_rate_den = 2,
                  bus_to_dec_rate_num = 1,
                  bus_to_dec_rate_den = 4\<rparr>"
proof -
  from pe_do_clock_test_total [where run = run and addr = addr, OF ticks]
  obtain g n where run: "pe_do_clock_test run g0 addr speed_list = Inr (g, n)" by blast
  note ch = pe_do_clock_test_Inr [OF run]
  have n: "n = 11"
  proof (rule ccontr)
    assume "n \<noteq> 11"
    with ch have lt: "n < 11" and "0 < n" by simp_all
    with ch have "pass_num run addr speed_list (n - 1) = last_num run addr speed_list (n - 1)"
      by blast
    moreover from lt \<open>0 < n\<close> have "n - 1 < 10" by simp
    ultimately show False using unstable by blast
  qed
  with ch have pass: "clock_test_pass (call_test run addr 10) speed_list = Inr g" by simp
  from run n have "PE_Determine_Clock_Speeds run g0 addr speed_list = report_clock_speeds g"
    by (simp add: PE_Determine_Clock_Speeds_def)
  with report_best_fit [OF pass dens] pass run n show ?thesis by simp
qed

theorem C7_exhausted_budget_reports_last_pass_witness:
  "PE_Determine_Clock_Speeds unsteady_test zero_globals 0 [(100000000, 1)]
     = Inr \<lparr>bus_clock_rate_hz = 99886694, cpu_clock_rate_hz = 249716735,
            dec_clock_rate_hz = 24971673, bus_clock_rate_num = 99886694,
            bus_clock_rate_den = 1, bus_to_cpu_rate_num = 5, bus_to_cpu_rate_den = 2,
            bus_to_dec_rate_num = 1, bus_to_dec_rate_den = 4\<rparr>
   \<and> clock_test_pass (call_test unsteady_test 0 10) [(100000000, 1)]
     = Inr \<lparr>bus_freq_num = 99886694, bus_freq_den = 1, cpu_pll = 5\<rparr>"
proof -
  have ticks: "\<forall>k<11. fst (unsteady_test k 0) \<noteq> 0 \<and> snd (unsteady_test k 0) \<noteq> 0"
    by (simp add: all_less_11 unsteady_test_def)
  have dens: "\<forall>entry\<in>set [(100000000 :: ulong, 1 :: ulong)]. 0 <s snd entry"
    by (simp add: word_sless_alt)
  have unstable: "\<forall>k<10. pass_num unsteady_test 0 [(100000000, 1)] k
                       \<noteq> last_num unsteady_test 0 [(100000000, 1)] k"
    by (simp add: all_less_10 clock_eval pass_num_def last_num_def unsteady_test_def)
  have pass: "clock_test_pass (call_test unsteady_test 0 10) [(100000000, 1)]
     = Inr \<lparr>bus_freq_num = 99886694, bus_freq_den = 1, cpu_pll = 5\<rparr>"
    by (simp add: clock_eval unsteady_test_def)
  from C7_exhausted_budget_reports_last_pass [OF ticks dens unstable, of zero_globals] pass
  show ?thesis by (simp add: clock_eval)
qed

subsection \<open>An empty table\<close>

text \<open>
  Claim C8 says that an empty table is a fatal violation of the contract: the routine
  does not tolerate it and does not go on to report a result from the fallback tiers
  alone.  The code has no test of \<^verbatim>\<open>num_speeds\<close>: with no entry the \<^verbatim>\<open>for\<close> loop ends at
  once with \<^verbatim>\<open>cnt == num_speeds\<close>, the pass falls through to the tiers of lines 137-162,
  and the run reports a result.
\<close>

theorem C8_empty_table_reports:
  "PE_Determine_Clock_Speeds (constant_test 31334 1000000) zero_globals 0 []
     = Inr \<lparr>bus_clock_rate_hz = 100000000, cpu_clock_rate_hz = 250000000,
            dec_clock_rate_hz = 25000000, bus_clock_rate_num = 100000000,
            bus_clock_rate_den = 1, bus_to_cpu_rate_num = 5, bus_to_cpu_rate_den = 2,
            bus_to_dec_rate_num = 1, bus_to_dec_rate_den = 4\<rparr>"
  by (simp add: run_eval zero_globals_def clock_eval constant_test_def)

text \<open>
  Claim C8 as amended: an empty table is tolerated.  For every measurement with
  non-zero tick counts the run returns, the estimate of its last pass is the one of
  the fallback tiers, and the report is made from it.
\<close>

theorem C8_empty_table_tolerated:
  assumes ticks: "\<forall>k<11. fst (run k addr) \<noteq> 0 \<and> snd (run k addr) \<noteq> 0"
  shows "\<exists>g n. pe_do_clock_test run g0 addr [] = Inr (g, n) \<and> 0 < n \<and> n \<le> 11 \<and>
           (bus_freq_num g, bus_freq_den g)
             = fallback (raw_bus_speed (snd (run (n - 1) addr)) (fst (run (n - 1) addr))) \<and>
           PE_Determine_Clock_Speeds run g0 addr [] =
             Inr \<lparr>bus_clock_rate_hz = long_div (bus_freq_num g) (bus_freq_den g),
                  cpu_clock_rate_hz =
                    ucast (((scast (bus_freq_num g) :: ulonglong) * scast (cpu_pll g))
                             div scast (bus_freq_den g * 2)),
                  dec_clock_rate_hz = long_div (bus_freq_num g) (bus_freq_den g) div 4,
                  bus_clock_rate_num = bus_freq_num g,
                  bus_clock_rate_den = bus_freq_den g,
                  bus_to_cpu_rate_num = cpu_pll g,
                  bus_to_cpu_rate_den = 2,
                  bus_to_dec_rate_num = 1,
                  bus_to_dec_rate_den = 4\<rparr>"
proof -
  from pe_do_clock_test_total [where run = run and addr = addr, OF ticks]
  obtain g n where run: "pe_do_clock_test run g0 addr [] = Inr (g, n)" by blast
  note ch = pe_do_clock_test_Inr [OF run]
  then have pass: "clock_test_pass (call_test run addr (n - 1)) [] = Inr g" by simp
  from clock_test_pass_InrD [OF pass]
  have "(bus_freq_num g, bus_freq_den g)
          = fallback (raw_bus_speed (snd (run (n - 1) addr)) (fst (run (n - 1) addr)))"
    by (simp add: best_fit_def call_test_def)
  moreover have "\<forall>entry\<in>set ([] :: (ulong \<times> ulong) list). 0 <s snd entry" by simp
  from report_best_fit [OF pass this] run
  have "PE_Determine_Clock_Speeds run g0 addr [] =
             Inr \<lparr>bus_clock_rate_hz = long_div (bus_freq_num g) (bus_freq_den g),
                  cpu_clock_rate_hz =
                    ucast (((scast (bus_freq_num g) :: ulonglong) * scast (cpu_pll g))
                             div scast (bus_freq_den g * 2)),
                  dec_clock_rate_hz = long_div (bus_freq_num g) (bus_freq_den g) div 4,
                  bus_clock_rate_num = bus_freq_num g,
                  bus_clock_rate_den = bus_freq_den g,
                  bus_to_cpu_rate_num = cpu_pll g,
                  bus_to_cpu_rate_den = 2,
                  bus_to_dec_rate_num = 1,
                  bus_to_dec_rate_den = 4\<rparr>"
    by (simp add: PE_Determine_Clock_Speeds_def)
  ultimately show ?thesis using run ch by blast
qed

theorem C8_empty_table_tolerated_witness:
  "\<exists>g n. pe_do_clock_test (constant_test 94003 1000000) zero_globals 0 [] = Inr (g, n) \<and>
      (bus_freq_num g, bus_freq_den g) = (100000000, 3) \<and>
      PE_Determine_Clock_Speeds (constant_test 94003 1000000) zero_globals 0 []
        = Inr \<lparr>bus_clock_rate_hz = 33333333, cpu_clock_rate_hz = 83333333,
               dec_clock_rate_hz = 8333333, bus_clock_rate_num = 100000000,
               bus_clock_rate_den = 3, bus_to_cpu_rate_num = 5, bus_to_cpu_rate_den = 2,
               bus_to_dec_rate_num = 1, bus_to_dec_rate_den = 4\<rparr>"
proof -
  have ticks: "\<forall>k<11. fst (constant_test 94003 1000000 k 0) \<noteq> (0 :: uint)
                     \<and> snd (constant_test 94003 1000000 k 0) \<noteq> (0 :: uint)"
    by (simp add: constant_test_def)
  have fb: "fallback (raw_bus_speed 1000000 94003) = (100000000, 3)"
    by (simp add: clock_eval)
  have rep: "PE_Determine_Clock_Speeds (constant_test 94003 1000000) zero_globals 0 []
        = Inr \<lparr>bus_clock_rate_hz = 33333333, cpu_clock_rate_hz = 83333333,
               dec_clock_rate_hz = 8333333, bus_clock_rate_num = 100000000,
               bus_clock_rate_den = 3, bus_to_cpu_rate_num = 5, bus_to_cpu_rate_den = 2,
               bus_to_dec_rate_num = 1, bus_to_dec_rate_den = 4\<rparr>"
    by (simp add: run_eval zero_globals_def clock_eval constant_test_def)
  from C8_empty_table_tolerated [of "constant_test 94003 1000000" 0 zero_globals, OF ticks] fb rep
  show ?thesis by (auto simp add: constant_test_def)
qed

subsection \<open>A steady measurement of 100 MHz\<close>

text \<open>
  Claim C9 says that with 10,000,000 decrementer ticks at every call, a VIA tick count
  that makes the raw bus frequency about 100,000,000, and the table [(100000000, 1)],
  the run settles in one pass and reports a bus rate of 100,000,000 Hz and a
  decrementer rate of 25,000,000 Hz.  \<^verbatim>\<open>bus_freq_num\<close> is 0 before the first pass, so the
  first pass changes it and the loop goes on; the run makes two passes.  (With
  10,000,000 decrementer ticks the 64-bit product of line 118 wraps around; 5481 VIA
  ticks then give a raw bus frequency of 100005578.)
\<close>

theorem C9_two_passes_not_one:
  "raw_bus_speed 10000000 5481 = 100005578
   \<and> clock_test_pass (call_test (constant_test 5481 10000000) 0 0) [(100000000, 1)]
       = Inr \<lparr>bus_freq_num = 100000000, bus_freq_den = 1, cpu_pll = 1\<rparr>
   \<and> pe_do_clock_test (constant_test 5481 10000000) zero_globals 0 [(100000000, 1)]
       = Inr (\<lparr>bus_freq_num = 100000000, bus_freq_den = 1, cpu_pll = 1\<rparr>, 2)"
  by (simp add: run_eval zero_globals_def clock_eval constant_test_def)

text \<open>
  Claim C9 as amended: for every such VIA tick count, where "about 100,000,000" is
  "within tolerance of the table entry", the run settles after two passes and
  reports a bus rate of 100,000,000 Hz and a decrementer rate of 25,000,000 Hz.
\<close>

theorem C9_steady_100_mhz:
  assumes "via \<noteq> 0"
    and "speed_close (raw_bus_speed 10000000 via) (100000000, 1)"
  shows "pe_do_clock_test (constant_test via 10000000) g0 addr [(100000000, 1)]
           = Inr (\<lparr>bus_freq_num = 100000000, bus_freq_den = 1, cpu_pll = 1\<rparr>, 2)
         \<and> PE_Determine_Clock_Speeds (constant_test via 10000000) g0 addr [(100000000, 1)]
           = Inr \<lparr>bus_clock_rate_hz = 100000000, cpu_clock_rate_hz = 50000000,
                  dec_clock_rate_hz = 25000000, bus_clock_rate_num = 100000000,
                  bus_clock_rate_den = 1, bus_to_cpu_rate_num = 1, bus_to_cpu_rate_den = 2,
                  bus_to_dec_rate_num = 1, bus_to_dec_rate_den = 4\<rparr>"
proof -
  have pll: "pll_mode 10000000 = 1"
    by (simp add: pll_mode_def long_div_def signed_divide_int_def)
  have pass: "clock_test_pass (call_test (constant_test via 10000000) addr k) [(100000000, 1)]
                = Inr \<lparr>bus_freq_num = 100000000, bus_freq_den = 1, cpu_pll = 1\<rparr>" for k
    using assms pll
    by (simp add: clock_test_pass_def call_test_def constant_test_def best_fit_def)
  have loop: "pe_do_clock_test (constant_test via 10000000) g0 addr [(100000000, 1)]
           = Inr (\<lparr>bus_freq_num = 100000000, bus_freq_den = 1, cpu_pll = 1\<rparr>, 2)"
    by (simp add: pe_do_clock_test_def clock_test_loop.simps pass)
  have "report_clock_speeds \<lparr>bus_freq_num = 100000000, bus_freq_den = 1, cpu_pll = 1\<rparr>
           = Inr \<lparr>bus_clock_rate_hz = 100000000, cpu_clock_rate_hz = 50000000,
                  dec_clock_rate_hz = 25000000, bus_clock_rate_num = 100000000,
                  bus_clock_rate_den = 1, bus_to_cpu_rate_num = 1, bus_to_cpu_rate_den = 2,
                  bus_to_dec_rate_num = 1, bus_to_dec_rate_den = 4\<rparr>"
    by (simp add: report_clock_speeds_def long_div_def signed_divide_int_def)
  with loop show ?thesis
    by (simp add: PE_Determine_Clock_Speeds_def)
qed

theorem C9_steady_100_mhz_witness:
  "(5481 :: uint) \<noteq> 0 \<and> speed_close (raw_bus_speed 10000000 5481) (100000000, 1)
   \<and> pe_do_clock_test (constant_test 5481 10000000) zero_globals 0 [(100000000, 1)]
           = Inr (\<lparr>bus_freq_num = 100000000, bus_freq_den = 1, cpu_pll = 1\<rparr>, 2)
   \<and> PE_Determine_Clock_Speeds (constant_test 5481 10000000) zero_globals 0 [(100000000, 1)]
           = Inr \<lparr>bus_clock_rate_hz = 100000000, cpu_clock_rate_hz = 50000000,
                  dec_clock_rate_hz = 25000000, bus_clock_rate_num = 100000000,
                  bus_clock_rate_den = 1, bus_to_cpu_rate_num = 1, bus_to_cpu_rate_den = 2,
                  bus_to_dec_rate_num = 1, bus_to_dec_rate_den = 4\<rparr>"
proof -
  have nz: "(5481 :: uint) \<noteq> 0" by simp
  have near: "speed_close (raw_bus_speed 10000000 5481) (100000000, 1)"
    by (simp add: clock_eval)
  from C9_steady_100_mhz [OF nz near, of zero_globals 0] nz near show ?thesis by simp
qed

subsection \<open>The CPU multiplier\<close>

text \<open>
  Claim C10: the reported CPU multiplier (the numerator of the bus-to-CPU pair, in
  halves) and with it the reported CPU rate come from the sample of the last pass
  alone; the loop test does not look at the multiplier, so two runs that settle on
  the same bus frequency can report different CPU rates.  First part: for every run
  that returns after \<open>n\<close> calls, the multiplier is \<open>pll_mode\<close> of the decrementer ticks
  of call \<open>n - 1\<close>, and the CPU rate is computed from it.  Second part: the runs on
  \<open>constant_test 31334 1000000\<close> and on \<open>changing_pll_test\<close> end with the same bus
  numerator and denominator and report different multipliers and CPU rates.
\<close>

theorem C10_cpu_multiplier_of_last_sample:
  "(PE_Determine_Clock_Speeds run g0 addr speed_list = Inr info \<longrightarrow>
      (\<exists>g n. pe_do_clock_test run g0 addr speed_list = Inr (g, n) \<and> 0 < n \<and>
         bus_to_cpu_rate_num info = pll_mode (snd (run (n - 1) addr)) \<and>
         bus_to_cpu_rate_den info = 2 \<and>
         cpu_clock_rate_hz info =
           ucast (((scast (bus_freq_num g) :: ulonglong)
                     * scast (pll_mode (snd (run (n - 1) addr))))
                    div scast (bus_freq_den g * 2))))
   \<and> (\<exists>info_a info_b.
         PE_Determine_Clock_Speeds (constant_test 31334 1000000) zero_globals 0
           [(100000000, 1)] = Inr info_a \<and>
         PE_Determine_Clock_Speeds changing_pll_test zero_globals 0
           [(100000000, 1)] = Inr info_b \<and>
         bus_clock_rate_num info_a = bus_clock_rate_num info_b \<and>
         bus_clock_rate_den info_a = bus_clock_rate_den info_b \<and>
         bus_to_cpu_rate_num info_a \<noteq> bus_to_cpu_rate_num info_b \<and>
         cpu_clock_rate_hz info_a \<noteq> cpu_clock_rate_hz info_b)"
proof (intro conjI impI)
  assume rep: "PE_Determine_Clock_Speeds run g0 addr speed_list = Inr info"
  from PE_Determine_Clock_Speeds_InrD [OF rep] obtain g n where
    run: "pe_do_clock_test run g0 addr speed_list = Inr (g, n)"
    and info: "report_clock_speeds g = Inr info" by blast
  note ch = pe_do_clock_test_Inr [OF run]
  then have pass: "clock_test_pass (call_test run addr (n - 1)) speed_list = Inr g" by simp
  from clock_test_pass_InrD [OF pass]
  have pll: "cpu_pll g = pll_mode (snd (run (n - 1) addr))"
    by (simp add: call_test_def)
  note fields = report_clock_speeds_InrD [OF info]
  have "bus_to_cpu_rate_num info = pll_mode (snd (run (n - 1) addr))"
    and "bus_to_cpu_rate_den info = 2"
    and "cpu_clock_rate_hz info =
           ucast (((scast (bus_freq_num g) :: ulonglong)
                     * scast (pll_mode (snd (run (n - 1) addr))))
                    div scast (bus_freq_den g * 2))"
    using pll by (simp_all add: fields)
  with run ch show "\<exists>g n. pe_do_clock_test run g0 addr speed_list = Inr (g, n) \<and> 0 < n \<and>
         bus_to_cpu_rate_num info = pll_mode (snd (run (n - 1) addr)) \<and>
         bus_to_cpu_rate_den info = 2 \<and>
         cpu_clock_rate_hz info =
           ucast (((scast (bus_freq_num g) :: ulonglong)
                     * scast (pll_mode (snd (run (n - 1) addr))))
                    div scast (bus_freq_den g * 2))"
    by blast
next
  have a: "PE_Determine_Clock_Speeds (constant_test 31334 1000000) zero_globals 0
           [(100000000, 1)]
     = Inr \<lparr>bus_clock_rate_hz = 100000000, cpu_clock_rate_hz = 250000000,
            dec_clock_rate_hz = 25000000, bus_clock_rate_num = 100000000,
            bus_clock_rate_den = 1, bus_to_cpu_rate_num = 5, bus_to_cpu_rate_den = 2,
            bus_to_dec_rate_num = 1, bus_to_dec_rate_den = 4\<rparr>"
    by (simp add: run_eval zero_globals_def clock_eval constant_test_def)
  have b: "PE_Determine_Clock_Speeds changing_pll_test zero_globals 0 [(100000000, 1)]
     = Inr \<lparr>bus_clock_rate_hz = 100000000, cpu_clock_rate_hz = 200000000,
            dec_clock_rate_hz = 25000000, bus_clock_rate_num = 100000000,
            bus_clock_rate_den = 1, bus_to_cpu_rate_num = 4, bus_to_cpu_rate_den = 2,
            bus_to_dec_rate_num = 1, bus_to_dec_rate_den = 4\<rparr>"
    by (simp add: run_eval zero_globals_def clock_eval changing_pll_test_def)
  show "\<exists>info_a info_b.
         PE_Determine_Clock_Speeds (constant_test 31334 1000000) zero_globals 0
           [(100000000, 1)] = Inr info_a \<and>
         PE_Determine_Clock_Speeds changing_pll_test zero_globals 0
           [(100000000, 1)] = Inr info_b \<and>
         bus_clock_rate_num info_a = bus_clock_rate_num info_b \<and>
         bus_clock_rate_den info_a = bus_clock_rate_den info_b \<and>
         bus_to_cpu_rate_num info_a \<noteq> bus_to_cpu_rate_num info_b \<and>
         cpu_clock_rate_hz info_a \<noteq> cpu_clock_rate_hz info_b"
    unfolding a b by simp
qed

text \<open>
  The run on \<open>changing_pll_test\<close>: the multiplier is 5 in the first pass and 4 in the
  second, the loop stops after the second, and 4 is reported.
\<close>

theorem C10_cpu_multiplier_of_last_sample_witness:
  "PE_Determine_Clock_Speeds changing_pll_test zero_globals 0 [(100000000, 1)]
     = Inr \<lparr>bus_clock_rate_hz = 100000000, cpu_clock_rate_hz = 200000000,
            dec_clock_rate_hz = 25000000, bus_clock_rate_num = 100000000,
            bus_clock_rate_den = 1, bus_to_cpu_rate_num = 4, bus_to_cpu_rate_den = 2,
            bus_to_dec_rate_num = 1, bus_to_dec_rate_den = 4\<rparr>
   \<and> pe_do_clock_test changing_pll_test zero_globals 0 [(100000000, 1)]
     = Inr (\<lparr>bus_freq_num = 100000000, bus_freq_den = 1, cpu_pll = 4\<rparr>, 2)
   \<and> pll_mode (snd (changing_pll_test 0 0)) = 5
   \<and> pll_mode (snd (changing_pll_test 1 0)) = 4"
proof -
  have b: "PE_Determine_Clock_Speeds changing_pll_test zero_globals 0 [(100000000, 1)]
     = Inr \<lparr>bus_clock_rate_hz = 100000000, cpu_clock_rate_hz = 200000000,
            dec_clock_rate_hz = 25000000, bus_clock_rate_num = 100000000,
            bus_clock_rate_den = 1, bus_to_cpu_rate_num = 4, bus_to_cpu_rate_den = 2,
            bus_to_dec_rate_num = 1, bus_to_dec_rate_den = 4\<rparr>"
    by (simp add: run_eval zero_globals_def clock_eval changing_pll_test_def)
  have run: "pe_do_clock_test changing_pll_test zero_globals 0 [(100000000, 1)]
     = Inr (\<lparr>bus_freq_num = 100000000, bus_freq_den = 1, cpu_pll = 4\<rparr>, 2)"
    by (simp add: run_eval zero_globals_def clock_eval changing_pll_test_def)
  have p0: "pll_mode (snd (changing_pll_test 0 0)) = 5"
    by (simp add: clock_eval changing_pll_test_def)
  have p1: "pll_mode (snd (changing_pll_test 1 0)) = 4"
    by (simp add: clock_eval changing_pll_test_def)
  from C10_cpu_multiplier_of_last_sample
         [of changing_pll_test zero_globals 0 "[(100000000, 1)]"] b run p0 p1
  show ?thesis by simp
qed

end
